theory Spec2Isabelle
  imports Complex_Main "HOL-Library.Word" "HOL-Library.Log_Nat"
begin

unbundle bit_operations_syntax

chapter \<open>Daily Progress Tracker: the model\<close>

text \<open>
  A shallow embedding of the functions of \<^verbatim>\<open>src/1.4.3ReactTest/src1/App2.jsx\<close> (the
  cloud-enabled variant) and of the local-only variant \<^verbatim>\<open>src/unnamed/part_000\<close>.
  React state is passed explicitly, the clock (\<^verbatim>\<open>new Date()\<close>, \<^verbatim>\<open>Date.now()\<close>), the
  host time zone and the random nonce are inputs, and every exception the JavaScript can
  raise is a value.  The platform functions the code calls (\<^verbatim>\<open>Number\<close>, \<^verbatim>\<open>Date\<close>,
  \<^verbatim>\<open>btoa\<close>/\<^verbatim>\<open>atob\<close>, \<^verbatim>\<open>TextEncoder\<close>/\<^verbatim>\<open>TextDecoder\<close>) are modelled from ECMAScript,
  the HTML standard and the WHATWG Encoding standard; AES-GCM itself is a parameter.
\<close>

section \<open>JavaScript strings\<close>

text \<open>A JavaScript string is a sequence of 16-bit code units.\<close>

type_synonym char16 = "16 word"
type_synonym jsstring = "char16 list"

definition js :: "string \<Rightarrow> jsstring" where
  \<comment> \<open>an ASCII literal as a JavaScript string\<close>
  "js s = map of_char s"

definition isWhiteSpace :: "char16 \<Rightarrow> bool" where
  \<comment> \<open>ECMAScript WhiteSpace and LineTerminator: what \<^verbatim>\<open>trim\<close> strips and \<^verbatim>\<open>Number\<close> skips\<close>
  "isWhiteSpace c \<longleftrightarrow>
     c = 0x9 \<or> c = 0xA \<or> c = 0xB \<or> c = 0xC \<or> c = 0xD \<or> c = 0x20 \<or> c = 0xA0 \<or>
     c = 0x1680 \<or> (0x2000 \<le> c \<and> c \<le> 0x200A) \<or> c = 0x2028 \<or> c = 0x2029 \<or>
     c = 0x202F \<or> c = 0x205F \<or> c = 0x3000 \<or> c = 0xFEFF"

definition trim :: "jsstring \<Rightarrow> jsstring" where
  "trim s = rev (dropWhile isWhiteSpace (rev (dropWhile isWhiteSpace s)))"

primrec split :: "char16 \<Rightarrow> jsstring \<Rightarrow> jsstring list" where
  \<comment> \<open>\<^verbatim>\<open>s.split(sep)\<close> for a one-character separator: \<^verbatim>\<open>"".split(",")\<close> is \<^verbatim>\<open>[""]\<close>\<close>
  "split sep [] = [[]]"
| "split sep (c # cs) =
     (if c = sep then [] # split sep cs
      else (case split sep cs of [] \<Rightarrow> [[c]] | r # rs \<Rightarrow> (c # r) # rs))"

fun join :: "jsstring \<Rightarrow> jsstring list \<Rightarrow> jsstring" where
  \<comment> \<open>\<^verbatim>\<open>xs.join(sep)\<close> on an array of strings\<close>
  "join sep [] = []"
| "join sep [x] = x"
| "join sep (x # y # ys) = x @ sep @ join sep (y # ys)"

definition replace_quotes :: "jsstring \<Rightarrow> jsstring" where
  \<comment> \<open>\<^verbatim>\<open>s.replace(/"/g, '""')\<close>\<close>
  "replace_quotes s = concat (map (\<lambda>c. if c = 0x22 then [0x22, 0x22] else [c]) s)"

section \<open>JavaScript numbers\<close>

text \<open>
  A Number is an IEEE 754 binary64 value.  A finite one is held as the rational it
  denotes; \<^verbatim>\<open>-0\<close> is identified with \<^verbatim>\<open>+0\<close>, which none of the functions below tells
  apart (both are falsy, print as \<^verbatim>\<open>0\<close>, and no division by zero is ever evaluated).
\<close>

datatype number = NaN | PosInf | NegInf | Fin rat

definition bexp :: "rat \<Rightarrow> int" where
  \<comment> \<open>the binary exponent \<open>\<lfloor>log\<^sub>2 \<bar>q\<bar>\<rfloor>\<close> of a rational other than 0\<close>
  "bexp q = (let (a, b) = quotient_of \<bar>q\<bar>; k = bitlen a - bitlen b
             in if 2 powi k \<le> \<bar>q\<bar> then k else k - 1)"

definition round_half_even :: "rat \<Rightarrow> int" where
  "round_half_even q = (let f = \<lfloor>q\<rfloor>; d = q - of_int f
     in if d < 1 / 2 then f else if 1 / 2 < d then f + 1 else if even f then f else f + 1)"

definition to_double :: "rat \<Rightarrow> number" where
  \<comment> \<open>the Number value of a real: round to nearest, ties to even, 53 bits of significand,
      subnormals below \<open>2\<^sup>-\<^sup>1\<^sup>0\<^sup>2\<^sup>2\<close>, infinity from \<open>2\<^sup>1\<^sup>0\<^sup>2\<^sup>4\<close> on\<close>
  "to_double q = (if q = 0 then Fin 0 else
     let e = max (bexp q) (- 1022);
         ulp = 2 powi (e - 52);
         r = of_int (round_half_even (q / ulp)) * ulp
     in if 1023 \<le> e \<and> 2 ^ 1024 \<le> r then PosInf
        else if 1023 \<le> e \<and> r \<le> - (2 ^ 1024) then NegInf
        else Fin r)"

definition truthy :: "number \<Rightarrow> bool" where
  \<comment> \<open>ToBoolean on a Number: false for \<^verbatim>\<open>NaN\<close>, \<^verbatim>\<open>+0\<close> and \<^verbatim>\<open>-0\<close>\<close>
  "truthy n \<longleftrightarrow> n \<noteq> NaN \<and> n \<noteq> Fin 0"

definition or_else :: "number \<Rightarrow> number \<Rightarrow> number" where
  \<comment> \<open>\<^verbatim>\<open>a || b\<close> on Numbers\<close>
  "or_else a b = (if truthy a then a else b)"

subsection \<open>Digits\<close>

definition isDigit :: "char16 \<Rightarrow> bool" where
  "isDigit c \<longleftrightarrow> 0x30 \<le> c \<and> c \<le> 0x39"

definition digitVal :: "char16 \<Rightarrow> int" where
  \<comment> \<open>the value of a digit of any base up to 16; 16 for a character that is none\<close>
  "digitVal c =
     (if 0x30 \<le> c \<and> c \<le> 0x39 then uint c - 48
      else if 0x61 \<le> c \<and> c \<le> 0x66 then uint c - 87
      else if 0x41 \<le> c \<and> c \<le> 0x46 then uint c - 55
      else 16)"

definition digitsVal :: "int \<Rightarrow> jsstring \<Rightarrow> int" where
  "digitsVal base ds = foldl (\<lambda>a c. base * a + digitVal c) 0 ds"

definition digitChar :: "int \<Rightarrow> char16" where
  "digitChar d = of_int (48 + d)"

function digits10 :: "int \<Rightarrow> jsstring" where
  \<comment> \<open>the decimal digits of a natural number, no leading zero\<close>
  "digits10 n = (if n < 10 then [digitChar n] else digits10 (n div 10) @ [digitChar (n mod 10)])"
  by pat_completeness auto
termination
  by (relation "measure nat") auto

definition pad :: "nat \<Rightarrow> int \<Rightarrow> jsstring" where
  \<comment> \<open>decimal digits, padded with zeros on the left to a width\<close>
  "pad w n = replicate (w - length (digits10 n)) 0x30 @ digits10 n"

subsection \<open>\<^verbatim>\<open>Number(string)\<close>: ECMAScript StringToNumber\<close>

definition parseExponent :: "jsstring \<Rightarrow> int option" where
  \<comment> \<open>SignedInteger, after the \<^verbatim>\<open>e\<close> or \<^verbatim>\<open>E\<close>, up to the end of the string\<close>
  "parseExponent s =
     (let (neg, ds) = (case s of [] \<Rightarrow> (False, [])
                       | c # r \<Rightarrow> if c = 0x2B then (False, r) else if c = 0x2D then (True, r)
                                  else (False, s))
      in if ds \<noteq> [] \<and> list_all isDigit ds
         then Some (if neg then - digitsVal 10 ds else digitsVal 10 ds)
         else None)"

definition parseUnsignedDecimal :: "jsstring \<Rightarrow> rat option" where
  \<comment> \<open>the mathematical value of a StrUnsignedDecimalLiteral other than \<^verbatim>\<open>Infinity\<close>:
      digits, an optional fraction, an optional exponent, and nothing after them\<close>
  "parseUnsignedDecimal s =
     (let ip = takeWhile isDigit s; r1 = dropWhile isDigit s;
          (fp, r2) = (case r1 of [] \<Rightarrow> ([], [])
                      | c # r \<Rightarrow> if c = 0x2E then (takeWhile isDigit r, dropWhile isDigit r)
                                 else ([], r1));
          m = of_int (digitsVal 10 ip) + of_int (digitsVal 10 fp) / 10 ^ length fp
      in if ip = [] \<and> fp = [] then None
         else (case r2 of [] \<Rightarrow> Some m
               | c # r \<Rightarrow> if c = 0x65 \<or> c = 0x45
                          then map_option (\<lambda>e. m * 10 powi e) (parseExponent r)
                          else None))"

definition parseNonDecimal :: "jsstring \<Rightarrow> int option" where
  \<comment> \<open>NonDecimalIntegerLiteral: \<^verbatim>\<open>0b\<close>, \<^verbatim>\<open>0o\<close> or \<^verbatim>\<open>0x\<close> (either case) and digits of that base\<close>
  "parseNonDecimal s =
     (case s of
        z # p # ds \<Rightarrow>
          (let base = (if p = 0x62 \<or> p = 0x42 then 2 else if p = 0x6F \<or> p = 0x4F then 8
                       else if p = 0x78 \<or> p = 0x58 then 16 else 0)
           in if z = 0x30 \<and> base \<noteq> 0 \<and> ds \<noteq> [] \<and> list_all (\<lambda>c. digitVal c < base) ds
              then Some (digitsVal base ds) else None)
      | _ \<Rightarrow> None)"

definition parseDecimal :: "jsstring \<Rightarrow> number" where
  \<comment> \<open>StrDecimalLiteral: an optional sign, then \<^verbatim>\<open>Infinity\<close> or an unsigned decimal\<close>
  "parseDecimal s =
     (let (neg, u) = (case s of [] \<Rightarrow> (False, [])
                      | c # r \<Rightarrow> if c = 0x2B then (False, r) else if c = 0x2D then (True, r)
                                 else (False, s))
      in if u = js ''Infinity'' then (if neg then NegInf else PosInf)
         else (case parseUnsignedDecimal u of
                 None \<Rightarrow> NaN
               | Some m \<Rightarrow> to_double (if neg then - m else m)))"

definition StringToNumber :: "jsstring \<Rightarrow> number" where
  \<comment> \<open>white space around the literal is skipped; the empty literal is 0; what does not
      parse is \<^verbatim>\<open>NaN\<close>.  A literal of more than 20 significant digits is rounded exactly
      (ECMAScript lets an implementation round it at the 20th digit first).\<close>
  "StringToNumber s =
     (let t = trim s
      in if t = [] then Fin 0
         else (case parseNonDecimal t of
                 Some n \<Rightarrow> to_double (of_int n)
               | None \<Rightarrow> parseDecimal t))"

subsection \<open>\<^verbatim>\<open>String(number)\<close>: ECMAScript Number::toString\<close>

definition is_int :: "rat \<Rightarrow> bool" where
  "is_int q \<longleftrightarrow> of_int \<lfloor>q\<rfloor> = q"

definition int_toString :: "int \<Rightarrow> jsstring" where
  \<comment> \<open>an integer of magnitude below \<open>10\<^sup>2\<^sup>1\<close> prints as its decimal digits\<close>
  "int_toString i = (if i < 0 then js ''-'' else []) @ digits10 \<bar>i\<bar>"

definition Number_toString :: "(rat \<Rightarrow> jsstring) \<Rightarrow> number \<Rightarrow> jsstring" where
  \<comment> \<open>For every finite value that is not an integer below \<open>10\<^sup>2\<^sup>1\<close> ECMAScript asks for
      the shortest digits that read back as the same Number and leaves the last digit
      open where two candidates exist: that part of the platform is the parameter
      \<open>shortest\<close>.\<close>
  "Number_toString shortest n =
     (case n of
        NaN \<Rightarrow> js ''NaN''
      | PosInf \<Rightarrow> js ''Infinity''
      | NegInf \<Rightarrow> js ''-Infinity''
      | Fin q \<Rightarrow> if is_int q \<and> \<bar>q\<bar> < 10 ^ 21 then int_toString \<lfloor>q\<rfloor> else shortest q)"

subsection \<open>Arithmetic\<close>




subsection \<open>\<^verbatim>\<open>x.toFixed(f)\<close>\<close>


section \<open>Dates\<close>

text \<open>
  A time value is a number of milliseconds since 1970-01-01T00:00:00Z.  A \<^verbatim>\<open>Date\<close> holds
  a time value or is invalid (\<open>None\<close>).  The host's time zone is a parameter: the offset
  of local time from UTC at a UTC time value, and at a local one (ECMAScript's
  \<^verbatim>\<open>LocalTZA(t, true)\<close> and \<^verbatim>\<open>LocalTZA(t, false)\<close>).
\<close>

record timezone =
  LocalTZA_utc :: "int \<Rightarrow> int"
  LocalTZA_local :: "int \<Rightarrow> int"

definition msPerDay :: int where
  "msPerDay = 86400000"

definition Day :: "int \<Rightarrow> int" where
  "Day t = t div msPerDay"

definition TimeWithinDay :: "int \<Rightarrow> int" where
  "TimeWithinDay t = t mod msPerDay"

definition LocalTime :: "timezone \<Rightarrow> int \<Rightarrow> int" where
  "LocalTime tz t = t + LocalTZA_utc tz t"

definition UTC :: "timezone \<Rightarrow> int \<Rightarrow> int" where
  "UTC tz t = t - LocalTZA_local tz t"

definition TimeClip :: "int \<Rightarrow> int option" where
  "TimeClip t = (if 8640000000000000 < \<bar>t\<bar> then None else Some t)"

definition civil_from_days :: "int \<Rightarrow> int \<times> int \<times> int" where
  \<comment> \<open>year, month (1 to 12) and day of the month of a day number, in the proleptic
      Gregorian calendar: ECMAScript's YearFromTime, MonthFromTime + 1 and DateFromTime,
      computed in 400-year eras with the year starting in March\<close>
  "civil_from_days n =
     (let z = n + 719468; era = z div 146097; doe = z mod 146097;
          yoe = (doe - doe div 1460 + doe div 36524 - doe div 146096) div 365;
          doy = doe - (365 * yoe + yoe div 4 - yoe div 100);
          mp = (5 * doy + 2) div 153;
          d = doy - (153 * mp + 2) div 5 + 1;
          m = (if mp < 10 then mp + 3 else mp - 9)
      in (yoe + era * 400 + (if m \<le> 2 then 1 else 0), m, d))"

definition days_from_civil :: "int \<Rightarrow> int \<Rightarrow> int \<Rightarrow> int" where
  \<comment> \<open>the day number of a year, month (1 to 12) and day of the month\<close>
  "days_from_civil y0 m d =
     (let y = (if m \<le> 2 then y0 - 1 else y0); era = y div 400; yoe = y mod 400;
          doy = (153 * (if 2 < m then m - 3 else m + 9) + 2) div 5 + d - 1;
          doe = yoe * 365 + yoe div 4 - yoe div 100 + doy
      in era * 146097 + doe - 719468)"

definition year_start :: "int \<Rightarrow> int" where
  \<comment> \<open>the day of its era on which the year \<open>y\<close> of the era starts, years starting in March\<close>
  "year_start y = 365 * y + y div 4 - y div 100"

definition year_of_era :: "int \<Rightarrow> int" where
  \<comment> \<open>the year of its era in which a day of the era lies: \<open>yoe\<close> in \<open>civil_from_days\<close>\<close>
  "year_of_era doe = (doe - doe div 1460 + doe div 36524 - doe div 146096) div 365"

definition MakeDay :: "int \<Rightarrow> int \<Rightarrow> int \<Rightarrow> int" where
  \<comment> \<open>ECMAScript MakeDay: the month counts from 0 and may lie outside 0 to 11, the date
      may lie outside the month\<close>
  "MakeDay year month dt = days_from_civil (year + month div 12) (month mod 12 + 1) 1 + dt - 1"

definition MakeDate :: "int \<Rightarrow> int \<Rightarrow> int" where
  "MakeDate day time = day * msPerDay + time"

definition getDate :: "timezone \<Rightarrow> int \<Rightarrow> int" where
  \<comment> \<open>\<^verbatim>\<open>d.getDate()\<close>: the day of the month, in local time\<close>
  "getDate tz t = (case civil_from_days (Day (LocalTime tz t)) of (y, m, d) \<Rightarrow> d)"

definition getMonth :: "timezone \<Rightarrow> int \<Rightarrow> int" where
  \<comment> \<open>\<^verbatim>\<open>d.getMonth()\<close>: the month from 0, in local time\<close>
  "getMonth tz t = (case civil_from_days (Day (LocalTime tz t)) of (y, m, d) \<Rightarrow> m - 1)"

definition setDate :: "timezone \<Rightarrow> int \<Rightarrow> int \<Rightarrow> int option" where
  \<comment> \<open>\<^verbatim>\<open>d.setDate(dt)\<close> on a valid date: the new time value, or an invalid date\<close>
  "setDate tz t dt =
     (let tl = LocalTime tz t
      in case civil_from_days (Day tl) of
           (y, m, d) \<Rightarrow> TimeClip (UTC tz (MakeDate (MakeDay y (m - 1) dt) (TimeWithinDay tl))))"

definition setMonth :: "timezone \<Rightarrow> int \<Rightarrow> int \<Rightarrow> int option" where
  \<comment> \<open>\<^verbatim>\<open>d.setMonth(month)\<close> on a valid date\<close>
  "setMonth tz t month =
     (let tl = LocalTime tz t
      in case civil_from_days (Day tl) of
           (y, m, d) \<Rightarrow> TimeClip (UTC tz (MakeDate (MakeDay y month d) (TimeWithinDay tl))))"

definition toISOString :: "int \<Rightarrow> jsstring" where
  \<comment> \<open>\<^verbatim>\<open>d.toISOString()\<close> on a valid date: \<^verbatim>\<open>YYYY-MM-DDTHH:mm:ss.sssZ\<close> in UTC, the year
      with a sign and six digits outside 0 to 9999\<close>
  "toISOString t =
     (case civil_from_days (Day t) of
        (y, m, d) \<Rightarrow>
          (let tw = TimeWithinDay t
           in (if 0 \<le> y \<and> y \<le> 9999 then pad 4 y
               else (if y < 0 then js ''-'' else js ''+'') @ pad 6 \<bar>y\<bar>)
              @ js ''-'' @ pad 2 m @ js ''-'' @ pad 2 d @ js ''T''
              @ pad 2 (tw div 3600000) @ js '':'' @ pad 2 (tw div 60000 mod 60) @ js '':''
              @ pad 2 (tw div 1000 mod 60) @ js ''.'' @ pad 3 (tw mod 1000) @ js ''Z''))"

definition isoDate :: "int \<Rightarrow> jsstring" where
  \<comment> \<open>\<^verbatim>\<open>d.toISOString().slice(0, 10)\<close>\<close>
  "isoDate t = take 10 (toISOString t)"

definition Date_parse :: "jsstring \<Rightarrow> int option" where
  \<comment> \<open>\<^verbatim>\<open>new Date(s)\<close> for the date-only form \<^verbatim>\<open>YYYY-MM-DD\<close>, which is what an
      \<^verbatim>\<open>input type="date"\<close> holds: midnight UTC of that day.  The empty string is an
      invalid date.  Other strings, whose reading ECMAScript leaves in part to the
      implementation, are outside the model and are given as invalid too.\<close>
  "Date_parse s =
     (if length s = 10 \<and> s ! 4 = 0x2D \<and> s ! 7 = 0x2D
         \<and> list_all isDigit (take 4 s @ take 2 (drop 5 s) @ drop 8 s)
      then (let y = digitsVal 10 (take 4 s); m = digitsVal 10 (take 2 (drop 5 s));
                d = digitsVal 10 (drop 8 s)
            in if 1 \<le> m \<and> m \<le> 12 \<and> 1 \<le> d
                  \<and> d \<le> days_from_civil y (m + 1) 1 - days_from_civil y m 1
               then Some (days_from_civil y m d * msPerDay) else None)
      else None)"

definition utc_zone :: timezone where
  \<comment> \<open>a host whose local time is UTC\<close>
  "utc_zone = \<lparr>LocalTZA_utc = (\<lambda>t. 0), LocalTZA_local = (\<lambda>t. 0)\<rparr>"

definition fixed_zone :: "int \<Rightarrow> timezone" where
  \<comment> \<open>a host whose local time is \<open>c\<close> milliseconds ahead of UTC at all times\<close>
  "fixed_zone c = \<lparr>LocalTZA_utc = (\<lambda>t. c), LocalTZA_local = (\<lambda>t. c)\<rparr>"

definition new_york_2024 :: timezone where
  \<comment> \<open>the offsets of America/New_York around its two transitions of 2024: UTC-5, and
      UTC-4 from 2024-03-10T07:00Z to 2024-11-03T06:00Z.  A local time that the clocks
      skip or repeat is read with the offset before the transition, as ECMAScript asks.\<close>
  "new_york_2024 =
     \<lparr>LocalTZA_utc = (\<lambda>t. if 1710054000000 \<le> t \<and> t < 1730613600000
                            then - 14400000 else - 18000000),
      LocalTZA_local = (\<lambda>t. if 1710039600000 \<le> t \<and> t < 1730599200000
                              then - 14400000 else - 18000000)\<rparr>"

section \<open>Errors\<close>

datatype error =
    RangeError              \<comment> \<open>\<^verbatim>\<open>toISOString\<close> on an invalid date\<close>
  | InvalidCharacterError   \<comment> \<open>\<^verbatim>\<open>atob\<close> on a string that is not base64\<close>
  | OperationError          \<comment> \<open>\<^verbatim>\<open>crypto.subtle.decrypt\<close>: the authentication failed\<close>
  | SyntaxError             \<comment> \<open>\<^verbatim>\<open>JSON.parse\<close>\<close>
  | GatewayError jsstring   \<comment> \<open>the error object of a Supabase call, with its message\<close>

section \<open>Entries\<close>

record entry =
  entry_id :: jsstring
  date :: jsstring
  plannedTasks :: number
  completedTasks :: number
  tasksNotes :: jsstring
  wins :: jsstring
  challenges :: jsstring
  mood :: number
  tags :: "jsstring list"
  minutesFocused :: number
  createdAt :: jsstring

text \<open>
  The form holds what the inputs hold: strings, but for \<^verbatim>\<open>mood\<close>, which
  \<^verbatim>\<open>getEmptyForm\<close> sets to the number 3 and an edit replaces by a string.
\<close>

datatype formval = FNum number | FStr jsstring

record form_fields =
  form_date :: jsstring
  form_plannedTasks :: jsstring
  form_completedTasks :: jsstring
  form_tasksNotes :: jsstring
  form_wins :: jsstring
  form_challenges :: jsstring
  form_mood :: formval
  form_tags :: jsstring
  form_minutesFocused :: jsstring

record app_state =
  entries :: "entry list"
  form :: form_fields

fun Number_of :: "formval \<Rightarrow> number" where
  \<comment> \<open>\<^verbatim>\<open>Number(v)\<close>\<close>
  "Number_of (FNum n) = n"
| "Number_of (FStr s) = StringToNumber s"

definition getEmptyForm :: "int \<Rightarrow> form_fields" where
  "getEmptyForm now =
     \<lparr>form_date = isoDate now, form_plannedTasks = [], form_completedTasks = [],
      form_tasksNotes = [], form_wins = [], form_challenges = [], form_mood = FNum (Fin 3),
      form_tags = [], form_minutesFocused = []\<rparr>"

definition addEntry :: "int \<Rightarrow> app_state \<Rightarrow> app_state" where
  \<comment> \<open>\<^verbatim>\<open>addEntry\<close> of both variants; \<open>now\<close> is the clock, read once\<close>
  "addEntry now st =
     (let f = form st;
          newEntry =
            \<lparr>entry_id = int_toString now,
             date = form_date f,
             plannedTasks = or_else (StringToNumber (form_plannedTasks f)) (Fin 0),
             completedTasks = or_else (StringToNumber (form_completedTasks f)) (Fin 0),
             tasksNotes = form_tasksNotes f,
             wins = form_wins f,
             challenges = form_challenges f,
             mood = or_else (Number_of (form_mood f)) (Fin 3),
             tags = filter (\<lambda>t. t \<noteq> []) (map trim (split 0x2C (form_tags f))),
             minutesFocused = or_else (StringToNumber (form_minutesFocused f)) (Fin 0),
             createdAt = toISOString now\<rparr>
      in st\<lparr>entries := newEntry # entries st, form := getEmptyForm now\<rparr>)"

subsection \<open>CSV export\<close>

definition csv_header :: "jsstring list" where
  "csv_header =
     [js ''date'', js ''plannedTasks'', js ''completedTasks'', js ''tasksNotes'', js ''wins'',
      js ''challenges'', js ''mood'', js ''minutesFocused'', js ''tags'', js ''createdAt'']"

definition csv_row :: "(rat \<Rightarrow> jsstring) \<Rightarrow> entry \<Rightarrow> jsstring list" where
  \<comment> \<open>the array built for one entry; \<^verbatim>\<open>join\<close> prints its numbers with \<^verbatim>\<open>String\<close>\<close>
  "csv_row shortest r =
     [date r,
      Number_toString shortest (plannedTasks r),
      Number_toString shortest (completedTasks r),
      [0x22] @ replace_quotes (tasksNotes r) @ [0x22],
      [0x22] @ replace_quotes (wins r) @ [0x22],
      [0x22] @ replace_quotes (challenges r) @ [0x22],
      Number_toString shortest (mood r),
      Number_toString shortest (minutesFocused r),
      [0x22] @ join (js '', '') (tags r) @ [0x22],
      createdAt r]"

definition toCSV :: "(rat \<Rightarrow> jsstring) \<Rightarrow> entry list \<Rightarrow> jsstring" where
  \<comment> \<open>\<^verbatim>\<open>toCSV\<close> of App2.jsx, and the string \<^verbatim>\<open>exportCSV\<close> of the local variant builds\<close>
  "toCSV shortest es =
     join [0x0A] (map (join (js '','')) (csv_header # map (csv_row shortest) es))"

subsection \<open>Analytics\<close>





subsection \<open>Reports\<close>

fun date_le :: "int option \<Rightarrow> int option \<Rightarrow> bool" where
  \<comment> \<open>\<^verbatim>\<open>a <= b\<close> on two dates: false when either is invalid\<close>
  "date_le (Some a) (Some b) = (a \<le> b)"
| "date_le _ _ = False"

definition generateReport_entries :: "timezone \<Rightarrow> int \<Rightarrow> jsstring \<Rightarrow> entry list \<Rightarrow> entry list" where
  \<comment> \<open>the \<^verbatim>\<open>entries\<close> of the report \<^verbatim>\<open>generateReport(range)\<close> returns, \<^verbatim>\<open>selected\<close>; \<open>rng\<close> is \<^verbatim>\<open>range\<close>\<close>
  "generateReport_entries tz now rng es =
     (let start = Some now;
          start = (if rng = js ''weekly'' then setDate tz now (getDate tz now - 6) else start);
          start = (if rng = js ''monthly''
                   then (case start of None \<Rightarrow> None
                         | Some s \<Rightarrow> setMonth tz s (getMonth tz now - 1))
                   else start)
      in filter (\<lambda>e. date_le start (Date_parse (date e))
                       \<and> date_le (Date_parse (date e)) (Some now)) es)"

section \<open>Habits\<close>


partial_function (option) streak_loop ::
    "timezone \<Rightarrow> jsstring list \<Rightarrow> nat \<Rightarrow> int \<Rightarrow> (error + nat) option" where
  \<comment> \<open>the \<^verbatim>\<open>while\<close> loop of \<^verbatim>\<open>calculateStreak\<close> from a valid \<^verbatim>\<open>cursor\<close> \<open>t\<close>, \<open>n\<close> being
      \<^verbatim>\<open>streak\<close>: \<open>None\<close> when it runs forever, a \<^verbatim>\<open>RangeError\<close> when \<^verbatim>\<open>setDate\<close> has left
      an invalid date, on which \<^verbatim>\<open>toISOString\<close> throws\<close>
  "streak_loop tz days n t =
     (if isoDate t \<in> set days
      then (case setDate tz t (getDate tz t - 1) of
              None \<Rightarrow> Some (Inl RangeError)
            | Some t' \<Rightarrow> streak_loop tz days (Suc n) t')
      else Some (Inr n))"

declare streak_loop.simps [code]

definition calculateStreak :: "timezone \<Rightarrow> int \<Rightarrow> jsstring list \<Rightarrow> (error + nat) option" where
  \<comment> \<open>\<^verbatim>\<open>calculateStreak(history)\<close> when the clock reads \<open>now\<close>\<close>
  "calculateStreak tz now hist = streak_loop tz hist 0 now"




subsection \<open>Reachable habit lists\<close>



section \<open>The backup codec\<close>


subsection \<open>\<^verbatim>\<open>btoa\<close> and \<^verbatim>\<open>atob\<close>\<close>










subsection \<open>\<^verbatim>\<open>TextEncoder\<close> and \<^verbatim>\<open>TextDecoder\<close>\<close>
















subsection \<open>Encryption\<close>







subsection \<open>Restoring a backup\<close>






section \<open>Example data\<close>

definition entry_on :: "jsstring \<Rightarrow> entry" where
  \<comment> \<open>an entry for a day: 5 tasks planned, 3 completed\<close>
  "entry_on d =
     \<lparr>entry_id = js ''1704362400000'', date = d, plannedTasks = Fin 5, completedTasks = Fin 3,
      tasksNotes = [], wins = [], challenges = [], mood = Fin 3, tags = [],
      minutesFocused = Fin 25, createdAt = js ''2024-01-04T10:00:00.000Z''\<rparr>"

definition quoted_entry :: entry where
  \<comment> \<open>an entry with a double quote in its notes and in a tag\<close>
  \<open>quoted_entry =
     (entry_on (js ''2024-01-04''))
       \<lparr>tasksNotes := js ''He said "hi"'', tags := [js ''a"b'', js ''c'']\<rparr>\<close>

definition form_with :: "jsstring \<Rightarrow> jsstring \<Rightarrow> formval \<Rightarrow> app_state" where
  \<comment> \<open>a state with no entries and a form holding the given planned tasks, completed
      tasks and mood\<close>
  "form_with p c m =
     \<lparr>entries = [],
      form = (getEmptyForm 1704362400000)
               \<lparr>form_plannedTasks := p, form_completedTasks := c, form_mood := m\<rparr>\<rparr>"




chapter \<open>Properties\<close>

section \<open>Entries built by \<^verbatim>\<open>addEntry\<close>\<close>

lemma StringToNumber_empty: "StringToNumber [] = Fin 0"
  by (simp add: StringToNumber_def trim_def)

lemma addEntry_entries:
  "entries (addEntry now st) \<noteq> [] \<and> tl (entries (addEntry now st)) = entries st"
  by (simp add: addEntry_def Let_def)

text \<open>
  C9, as the code has it.  The planned and completed tasks of the entry \<^verbatim>\<open>addEntry\<close>
  builds are \<^verbatim>\<open>Number(input) || 0\<close>: 0 when the input does not parse (\<^verbatim>\<open>NaN\<close>), and the
  number the input denotes otherwise, whatever its sign and whether or not it is an
  integer.  The field is never \<^verbatim>\<open>NaN\<close>.
\<close>

theorem addEntry_tasks_coerced:
  "plannedTasks (hd (entries (addEntry now st))) =
     (if StringToNumber (form_plannedTasks (form st)) = NaN then Fin 0
      else StringToNumber (form_plannedTasks (form st)))
   \<and> completedTasks (hd (entries (addEntry now st))) =
     (if StringToNumber (form_completedTasks (form st)) = NaN then Fin 0
      else StringToNumber (form_completedTasks (form st)))
   \<and> plannedTasks (hd (entries (addEntry now st))) \<noteq> NaN
   \<and> completedTasks (hd (entries (addEntry now st))) \<noteq> NaN"
  by (simp add: addEntry_def Let_def or_else_def truthy_def)

theorem addEntry_tasks_coerced_witness:
  "plannedTasks (hd (entries (addEntry 0 (form_with (js ''many'') (js ''7'') (FNum (Fin 3))))))
     = Fin 0
   \<and> completedTasks (hd (entries (addEntry 0 (form_with (js ''many'') (js ''7'') (FNum (Fin 3))))))
     = Fin 7"
proof -
  have p: "StringToNumber (form_plannedTasks (form (form_with (js ''many'') (js ''7'') (FNum (Fin 3)))))
             = NaN"
    by code_simp
  have c: "StringToNumber (form_completedTasks (form (form_with (js ''many'') (js ''7'') (FNum (Fin 3)))))
             = Fin 7"
    by code_simp
  show ?thesis
    using addEntry_tasks_coerced [of 0 "form_with (js ''many'') (js ''7'') (FNum (Fin 3))"]
    by (simp only: p c) simp
qed

text \<open>
  C9, as the claim states it, fails: the planned and completed tasks need not be
  non-negative integers.  The inputs \<^verbatim>\<open>-3\<close> and \<^verbatim>\<open>1.5\<close>, which a number field accepts,
  give the entry \<^verbatim>\<open>plannedTasks = -3\<close> and \<^verbatim>\<open>completedTasks = 1.5\<close>.
\<close>

theorem addEntry_tasks_counterexample:
  "plannedTasks (hd (entries (addEntry 0 (form_with (js ''-3'') (js ''1.5'') (FNum (Fin 3))))))
     = Fin (- 3)
   \<and> completedTasks (hd (entries (addEntry 0 (form_with (js ''-3'') (js ''1.5'') (FNum (Fin 3))))))
     = Fin (3 / 2)"
  by code_simp

text \<open>
  C10.  When the mood of the form is not numeric (\<^verbatim>\<open>Number\<close> gives \<^verbatim>\<open>NaN\<close>), is the empty
  string, or is 0, the entry \<^verbatim>\<open>addEntry\<close> builds has the mood 3.
\<close>

theorem addEntry_mood_default:
  assumes "Number_of (form_mood (form st)) = NaN \<or> form_mood (form st) = FStr []
             \<or> Number_of (form_mood (form st)) = Fin 0"
  shows "mood (hd (entries (addEntry now st))) = Fin 3"
proof -
  have "\<not> truthy (Number_of (form_mood (form st)))"
    using assms by (auto simp: truthy_def StringToNumber_empty)
  then show ?thesis
    by (simp add: addEntry_def Let_def or_else_def)
qed

theorem addEntry_mood_default_witness:
  "mood (hd (entries (addEntry 0 (form_with [] [] (FStr (js ''great'')))))) = Fin 3
   \<and> mood (hd (entries (addEntry 0 (form_with [] [] (FStr []))))) = Fin 3
   \<and> mood (hd (entries (addEntry 0 (form_with [] [] (FNum (Fin 0)))))) = Fin 3"
proof -
  have a: "Number_of (form_mood (form (form_with [] [] (FStr (js ''great''))))) = NaN"
    by code_simp
  have b: "form_mood (form (form_with [] [] (FStr []))) = FStr []"
    by (simp add: form_with_def)
  have c: "Number_of (form_mood (form (form_with [] [] (FNum (Fin 0))))) = Fin 0"
    by (simp add: form_with_def)
  show ?thesis
    using addEntry_mood_default [of "form_with [] [] (FStr (js ''great''))" 0]
      addEntry_mood_default [of "form_with [] [] (FStr [])" 0]
      addEntry_mood_default [of "form_with [] [] (FNum (Fin 0))" 0]
    by (simp only: a b c simp_thms)
qed

section \<open>CSV export\<close>

text \<open>
  C7 at an entry whose notes are \<^verbatim>\<open>He said "hi"\<close> and whose tags are \<^verbatim>\<open>a"b\<close> and \<^verbatim>\<open>c\<close>.
  The header is the one claimed, the rows are separated by a newline, the numbers and
  the dates stand unquoted, and the quotes of the notes are doubled; the quote inside
  the tag is not: the tags are joined and wrapped, but never passed through the
  replacement the three other text fields get.
\<close>

theorem toCSV_tags_quote_not_doubled:
  \<open>toCSV shortest [quoted_entry] =
     js ''date,plannedTasks,completedTasks,tasksNotes,wins,challenges,mood,minutesFocused,tags,createdAt''
     @ [0x0A]
     @ js ''2024-01-04,5,3,"He said ""hi""","","",3,25,"a"b, c",2024-01-04T10:00:00.000Z''\<close>
  by code_simp

section \<open>The calendar\<close>

text \<open>
  The day number of the year, month and day that \<open>civil_from_days\<close> gives for a day
  number is that day number.  Within an era of 146097 days the year is found by a division
  that is checked on the first and the last day of each of the 400 years, and is monotone
  in between.
\<close>

lemma div_step: "0 \<le> d \<Longrightarrow> 0 < k \<Longrightarrow> (x + d) div k \<le> x div k + (d :: int)"
proof -
  assume d: "0 \<le> d" and k: "0 < k"
  then have "d \<le> d * k" by (simp add: mult_le_cancel_left1 int_one_le_iff_zero_less)
  then have "(x + d) div k \<le> (x + d * k) div k" using k by (intro zdiv_mono1) simp_all
  also have "\<dots> = x div k + d" using k by simp
  finally show ?thesis .
qed

lemma year_of_era_mono:
  assumes "0 \<le> x" "x \<le> y" "y < 146096"
  shows "year_of_era x \<le> year_of_era y"
proof -
  have a: "y div 1460 \<le> x div 1460 + (y - x)"
    using div_step [of "y - x" 1460 x] assms(2) by simp
  have b: "x div 36524 \<le> y div 36524" using assms(2) by (intro zdiv_mono1) simp_all
  have c: "x div 146096 = 0" "y div 146096 = 0" using assms by simp_all
  have "x - x div 1460 + x div 36524 - x div 146096 \<le> y - y div 1460 + y div 36524 - y div 146096"
    using a b c by linarith
  then show ?thesis unfolding year_of_era_def by (intro zdiv_mono1) simp_all
qed

lemma year_of_era_table:
  "list_all (\<lambda>y. year_of_era (year_start y) = y \<and> year_of_era (year_start (y + 1) - 1) = y) [0..399]"
  by code_simp

lemma year_of_era_at_bounds:
  assumes "0 \<le> y" "y \<le> 399"
  shows "year_of_era (year_start y) = y" "year_of_era (year_start (y + 1) - 1) = y"
  using year_of_era_table assms by (simp_all add: list_all_iff)

lemma year_exists:
  "year_start 0 \<le> x \<Longrightarrow> x < year_start (int n) \<Longrightarrow>
     \<exists>y. 0 \<le> y \<and> y < int n \<and> year_start y \<le> x \<and> x < year_start (y + 1)"
proof (induction n)
  case 0
  then show ?case by simp
next
  case (Suc n)
  show ?case
  proof (cases "x < year_start (int n)")
    case True
    with Suc obtain y where "0 \<le> y" "y < int n" "year_start y \<le> x" "x < year_start (y + 1)"
      by blast
    then show ?thesis by (intro exI [of _ y]) simp
  next
    case False
    with Suc.prems(2) show ?thesis by (intro exI [of _ "int n"]) (simp add: add.commute)
  qed
qed

lemma year_start_next: "year_start (y + 1) - year_start y \<le> 366"
proof -
  have "365 * (y + 1) + A - B - (365 * y + C - D) \<le> 366" if "A \<le> C + 1" "D \<le> B"
    for A B C D :: int using that by (simp add: algebra_simps)
  moreover have "(y + 1) div 4 \<le> y div 4 + 1" using div_step [of 1 4 y] by simp
  moreover have "y div 100 \<le> (y + 1) div 100" by (intro zdiv_mono1) simp_all
  ultimately show ?thesis unfolding year_start_def by blast
qed

lemma year_start_mono: "a \<le> b \<Longrightarrow> year_start a \<le> year_start b"
proof -
  assume ab: "a \<le> b"
  have "365 * a + A - B \<le> 365 * b + C - D" if "A \<le> C" "D \<le> B + (b - a)" "a \<le> b"
    for A B C D :: int using that by (simp add: algebra_simps)
  moreover have "a div 4 \<le> b div 4" using ab by (intro zdiv_mono1) simp_all
  moreover have "b div 100 \<le> a div 100 + (b - a)" using div_step [of "b - a" 100 a] ab by simp
  ultimately show ?thesis unfolding year_start_def using ab by blast
qed

lemma year_of_era_correct:
  assumes "0 \<le> doe" "doe \<le> 146096"
  shows "0 \<le> year_of_era doe \<and> year_of_era doe \<le> 399
         \<and> 0 \<le> doe - year_start (year_of_era doe) \<and> doe - year_start (year_of_era doe) \<le> 365"
proof (cases "doe = 146096")
  case True
  have "year_of_era 146096 = 399" "year_start 399 = 145731" by code_simp+
  with True show ?thesis by simp
next
  case False
  have s0: "year_start 0 = 0" and s400: "year_start 400 = 146096" by code_simp+
  from False assms obtain y where y: "0 \<le> y" "y < 400" "year_start y \<le> doe" "doe < year_start (y + 1)"
    using year_exists [of doe 400] s0 s400 by auto
  have lo: "0 \<le> year_start y" using year_start_mono [of 0 y] y(1) s0 by simp
  have hi: "year_start (y + 1) \<le> 146096" using year_start_mono [of "y + 1" 400] y(2) s400 by simp
  have "year_of_era (year_start y) \<le> year_of_era doe"
    using lo y(3) False assms(2) by (intro year_of_era_mono) simp_all
  moreover have "year_of_era doe \<le> year_of_era (year_start (y + 1) - 1)"
    using assms(1) y(4) hi by (intro year_of_era_mono) simp_all
  ultimately have "year_of_era doe = y"
    using year_of_era_at_bounds [of y] y(1,2) by simp
  then show ?thesis using y year_start_next [of y] by simp
qed

lemma civil_round_trip:
  "(case civil_from_days n of (y, m, d) \<Rightarrow>
      1 \<le> m \<and> m \<le> 12 \<and> days_from_civil y m d = n)"
proof -
  define z where "z = n + 719468"
  define era where "era = z div 146097"
  define doe where "doe = z mod 146097"
  define yoe where "yoe = year_of_era doe"
  define doy where "doy = doe - year_start yoe"
  define mp where "mp = (5 * doy + 2) div 153"
  define d where "d = doy - (153 * mp + 2) div 5 + 1"
  define m where "m = (if mp < 10 then mp + 3 else mp - 9)"
  define y where "y = yoe + era * 400 + (if m \<le> 2 then 1 else 0)"
  have doe: "0 \<le> doe" "doe \<le> 146096" unfolding doe_def by simp_all
  have z: "z = era * 146097 + doe" unfolding era_def doe_def by simp
  have yoe: "0 \<le> yoe" "yoe \<le> 399" and doy: "0 \<le> doy" "doy \<le> 365"
    using year_of_era_correct [OF doe] unfolding yoe_def doy_def by simp_all
  have mp: "0 \<le> mp" "mp \<le> 11" using doy unfolding mp_def by linarith+
  have m: "1 \<le> m" "m \<le> 12" "(if 2 < m then m - 3 else m + 9) = mp"
    using mp unfolding m_def by auto
  have c: "civil_from_days n = (y, m, d)"
    unfolding civil_from_days_def Let_def y_def m_def d_def mp_def doy_def yoe_def doe_def era_def
      z_def year_of_era_def year_start_def
    by (rule refl)
  have y': "(if m \<le> 2 then y - 1 else y) = yoe + era * 400" unfolding y_def by simp
  have e: "(yoe + era * 400) div 400 = era" "(yoe + era * 400) mod 400 = yoe"
    using yoe by simp_all
  have f1: "(153 * mp + 2) div 5 + d - 1 = doy" by (simp add: d_def)
  have f2: "yoe * 365 + yoe div 4 - yoe div 100 + doy = doe" by (simp add: doy_def year_start_def)
  have f3: "era * 146097 + doe - 719468 = n" using z by (simp add: z_def)
  have "days_from_civil y m d = n"
    by (simp only: days_from_civil_def Let_def y' e m(3) f1 f2 f3)
  with m(1,2) c show ?thesis by simp
qed

text \<open>
  On a host whose offset from UTC never changes, \<^verbatim>\<open>d.setDate(d.getDate() - k)\<close> moves the
  date back by \<open>k\<close> days of 24 hours, or leaves an invalid date when that is out of the
  range of time values.
\<close>

lemma days_from_civil_day: "days_from_civil y m d = days_from_civil y m 1 + d - 1"
  by (simp add: days_from_civil_def Let_def)

lemma MakeDay_civil:
  assumes "civil_from_days n = (y, m, d)"
  shows "MakeDay y (m - 1) dt = n + dt - d"
proof -
  from civil_round_trip [of n] assms
  have m: "1 \<le> m" "m \<le> 12" and n: "days_from_civil y m d = n" by simp_all
  from m have "(m - 1) div 12 = 0" "(m - 1) mod 12 + 1 = m" by simp_all
  then have "MakeDay y (m - 1) dt = days_from_civil y m 1 + dt - 1"
    by (simp add: MakeDay_def)
  with n days_from_civil_day [of y m d] show ?thesis by simp
qed

lemma setDate_fixed_zone:
  "setDate (fixed_zone c) t (getDate (fixed_zone c) t - k) = TimeClip (t - k * msPerDay)"
proof -
  obtain y m d where c: "civil_from_days (Day (t + c)) = (y, m, d)"
    by (cases "civil_from_days (Day (t + c))") auto
  have "MakeDate (Day (t + c) - k) (TimeWithinDay (t + c)) = t + c - k * msPerDay"
    by (simp add: MakeDate_def Day_def TimeWithinDay_def algebra_simps)
  then show ?thesis
    using c MakeDay_civil [OF c, of "d - k"]
    by (simp add: setDate_def getDate_def fixed_zone_def LocalTime_def UTC_def Let_def)
qed

section \<open>The weekly report\<close>

text \<open>
  C5 at noon (UTC) of 2024-01-10, on a host whose local time is UTC, with one entry for
  each of 2024-01-03, 2024-01-04 and 2024-01-05.  The window starts six days before now
  at the same time of day, 2024-01-04T12:00Z, and an entry stands at the midnight that
  begins its day: the entry dated six days before now is left out with the one dated
  seven days before.
\<close>

theorem weekly_report_omits_sixth_day:
  "generateReport_entries utc_zone 1704888000000 (js ''weekly'')
     [entry_on (js ''2024-01-03''), entry_on (js ''2024-01-04''), entry_on (js ''2024-01-05'')]
   = [entry_on (js ''2024-01-05'')]"
  by code_simp

text \<open>
  The window in general, on a host whose offset from UTC never changes: an entry is
  selected when its date is one of the six dates that end at the UTC date of the clock,
  and the date six days before that one is added only when the clock stands at midnight
  UTC exactly.
\<close>

lemma Date_parse_midnight: "Date_parse s = Some v \<Longrightarrow> v = Day v * msPerDay"
  by (auto simp: Date_parse_def Let_def Day_def msPerDay_def split: if_splits)

lemma window_days:
  fixes a now :: int
  shows "now - 6 * msPerDay \<le> a * msPerDay \<and> a * msPerDay \<le> now
     \<longleftrightarrow> (if TimeWithinDay now = 0 then Day now - 6 else Day now - 5) \<le> a \<and> a \<le> Day now"
proof -
  define q r where "q = now div 86400000" and "r = now mod 86400000"
  have now: "now = q * 86400000 + r" and r: "0 \<le> r" "r < 86400000"
    unfolding q_def r_def by simp_all
  show ?thesis
    unfolding Day_def TimeWithinDay_def msPerDay_def q_def [symmetric] r_def [symmetric]
    using r unfolding now by auto
qed

theorem weekly_report_fixed_zone:
  assumes "\<bar>now - 6 * msPerDay\<bar> \<le> 8640000000000000"
  shows "generateReport_entries (fixed_zone c) now (js ''weekly'') es
    = filter (\<lambda>e. case Date_parse (date e) of
                     None \<Rightarrow> False
                   | Some v \<Rightarrow> (if TimeWithinDay now = 0 then Day now - 6 else Day now - 5) \<le> Day v
                              \<and> Day v \<le> Day now) es"
proof -
  have ne: "js ''weekly'' \<noteq> js ''monthly''" by (simp add: js_def)
  have start: "setDate (fixed_zone c) now (getDate (fixed_zone c) now - 6) = Some (now - 6 * msPerDay)"
    using assms setDate_fixed_zone [of c now 6] by (simp add: TimeClip_def)
  have "(date_le (Some (now - 6 * msPerDay)) (Date_parse s) \<and> date_le (Date_parse s) (Some now))
      = (case Date_parse s of None \<Rightarrow> False
         | Some v \<Rightarrow> (if TimeWithinDay now = 0 then Day now - 6 else Day now - 5) \<le> Day v
                     \<and> Day v \<le> Day now)" for s
  proof (cases "Date_parse s")
    case None
    then show ?thesis by simp
  next
    case (Some v)
    from Date_parse_midnight [OF Some] window_days [of now "Day v"] Some
    show ?thesis by simp
  qed
  then show ?thesis
    unfolding generateReport_entries_def Let_def using ne start by simp
qed

theorem weekly_report_fixed_zone_witness:
  "generateReport_entries (fixed_zone 3600000) 1704888000000 (js ''weekly'')
     [entry_on (js ''2024-01-04''), entry_on (js ''2024-01-05''), entry_on (js ''2024-01-11'')]
   = [entry_on (js ''2024-01-05'')]"
proof -
  have "\<bar>1704888000000 - 6 * msPerDay\<bar> \<le> 8640000000000000" by (simp add: msPerDay_def)
  from weekly_report_fixed_zone [OF this, of 3600000
      "[entry_on (js ''2024-01-04''), entry_on (js ''2024-01-05''), entry_on (js ''2024-01-11'')]"]
  show ?thesis by code_simp
qed

section \<open>Streaks\<close>

text \<open>
  C3 at 2024-03-10T23:30Z on a host in New York, with a history of that one day.  The
  loop reads the day of the cursor in UTC and moves the cursor back by one day of local
  time; across the start of daylight saving time that is 23 hours, which leaves the
  cursor on the same UTC day, 2024-03-10T00:30Z.  The one marked day is counted twice.
\<close>

theorem calculateStreak_counts_day_twice:
  "calculateStreak new_york_2024 1710113400000 [js ''2024-03-10''] = Some (Inr 2)"
  by code_simp

text \<open>
  In every zone the first test of the loop is on the UTC day of the clock: a history
  without that day gives the streak 0, whatever else it holds.
\<close>

lemma calculateStreak_today_missing:
  "isoDate now \<notin> set hist \<Longrightarrow> calculateStreak tz now hist = Some (Inr 0)"
  by (simp add: calculateStreak_def streak_loop.simps)

text \<open>
  On a host whose offset from UTC never changes the loop steps by 24 hours and the count
  is the number of consecutive UTC days, ending at the day of the clock, whose dates
  are in the history, as long as the walk stays within the range of time values.
\<close>

lemma streak_loop_fixed_zone:
  "\<forall>i<k. isoDate (t - int i * msPerDay) \<in> set days
   \<Longrightarrow> isoDate (t - int k * msPerDay) \<notin> set days
   \<Longrightarrow> t \<le> 8640000000000000 \<Longrightarrow> - 8640000000000000 \<le> t - int k * msPerDay
   \<Longrightarrow> streak_loop (fixed_zone c) days n t = Some (Inr (n + k))"
proof (induction k arbitrary: n t)
  case 0
  then show ?case by (simp add: streak_loop.simps)
next
  case (Suc k)
  let ?t = "t - msPerDay"
  have here: "isoDate t \<in> set days" using Suc.prems(1) by fastforce
  have shift: "?t - int i * msPerDay = t - int (Suc i) * msPerDay" for i
    by (simp add: algebra_simps)
  have "0 \<le> int k * msPerDay" by (simp add: msPerDay_def)
  with Suc.prems(3,4) have "\<bar>?t\<bar> \<le> 8640000000000000"
    by (simp add: msPerDay_def algebra_simps)
  then have step: "setDate (fixed_zone c) t (getDate (fixed_zone c) t - 1) = Some ?t"
    using setDate_fixed_zone [of c t 1] by (simp add: TimeClip_def)
  have "streak_loop (fixed_zone c) days (Suc n) ?t = Some (Inr (Suc n + k))"
  proof (rule Suc.IH)
    show "\<forall>i<k. isoDate (?t - int i * msPerDay) \<in> set days"
      unfolding shift using Suc.prems(1) by (auto simp del: of_nat_Suc)
    show "isoDate (?t - int k * msPerDay) \<notin> set days"
      using Suc.prems(2) unfolding shift .
    show "?t \<le> 8640000000000000" using Suc.prems(3) by (simp add: msPerDay_def)
    show "- 8640000000000000 \<le> ?t - int k * msPerDay"
      using Suc.prems(4) unfolding shift .
  qed
  with here step show ?case
    by (subst streak_loop.simps) simp
qed

theorem calculateStreak_fixed_zone:
  assumes "\<forall>i<k. isoDate (now - int i * msPerDay) \<in> set hist"
    and "isoDate (now - int k * msPerDay) \<notin> set hist"
    and "now \<le> 8640000000000000" and "- 8640000000000000 \<le> now - int k * msPerDay"
  shows "calculateStreak (fixed_zone c) now hist = Some (Inr k)"
  using streak_loop_fixed_zone [OF assms, of c 0] by (simp add: calculateStreak_def)

theorem calculateStreak_fixed_zone_witness:
  "calculateStreak (fixed_zone 3600000) 1704888000000
     [js ''2024-01-07'', js ''2024-01-09'', js ''2024-01-10''] = Some (Inr 2)"
proof -
  let ?hist = "[js ''2024-01-07'', js ''2024-01-09'', js ''2024-01-10'']"
  have 0: "isoDate (1704888000000 - int 0 * msPerDay) \<in> set ?hist" by code_simp
  have 1: "isoDate (1704888000000 - int 1 * msPerDay) \<in> set ?hist" by code_simp
  have 2: "isoDate (1704888000000 - int 2 * msPerDay) \<notin> set ?hist" by code_simp
  have "\<forall>i<2. isoDate (1704888000000 - int i * msPerDay) \<in> set ?hist"
    using 0 1 by (auto simp: less_Suc_eq numeral_2_eq_2)
  moreover have "(1704888000000::int) \<le> 8640000000000000" by simp
  moreover have "- 8640000000000000 \<le> 1704888000000 - int 2 * msPerDay"
    by (simp add: msPerDay_def)
  ultimately show ?thesis
    using 2 calculateStreak_fixed_zone [of 2 1704888000000 ?hist 3600000] by simp
qed

subsection \<open>The cached streak\<close>







section \<open>The success rate\<close>

subsection \<open>Digits printed and read back\<close>


















lemma to_double_0: "to_double 0 = Fin 0"
  by (simp add: to_double_def)








section \<open>The backup codec\<close>

subsection \<open>Base64\<close>
































subsection \<open>UTF-8\<close>


























subsection \<open>Encrypting and decrypting\<close>











end
